theory Spec2Isabelle
  imports Main
begin

section \<open>Go values, dynamic types and the type assertion\<close>

text \<open>
  The library (\<^verbatim>\<open>gotrycatch.go\<close>) stores a panic payload in a field of type
  \<^verbatim>\<open>interface{}\<close>. Such a value is either \<^verbatim>\<open>nil\<close> or a pair of a dynamic type and
  the data of that type. The dynamic type of an interface value is never an interface
  type itself, so dynamic types (\<open>ctype\<close>) are kept apart from the types a caller may
  pass as the type argument \<^verbatim>\<open>T\<close> (\<open>gotype\<close>), which may be interface types.
  A concrete type is identified by its name and carries its method set; an interface type
  is the list of methods it requires (\<^verbatim>\<open>error\<close> requires \<^verbatim>\<open>Error\<close>, \<^verbatim>\<open>interface{}\<close>
  requires nothing).
\<close>

type_synonym mname = string

datatype ctype = CType (type_name: string) (method_set: "mname list")

datatype gotype = Concrete ctype | Interface "mname list"

datatype 'd any = GoNil | Dyn (dyn_type: ctype) (dyn_value: 'd)

fun implements :: "ctype \<Rightarrow> mname list \<Rightarrow> bool" where
  "implements (CType n ms) req = (set req \<subseteq> set ms)"

text \<open>
  \<^verbatim>\<open>err, ok := tb.err.(T)\<close>: the flag \<^verbatim>\<open>ok\<close>. For a non-interface \<^verbatim>\<open>T\<close> the dynamic
  type must be identical to \<^verbatim>\<open>T\<close>; for an interface \<^verbatim>\<open>T\<close> the dynamic type must implement
  it; a nil interface value satisfies no assertion.
\<close>

fun type_assert :: "'d any \<Rightarrow> gotype \<Rightarrow> bool" where
  "type_assert GoNil T = False"
| "type_assert (Dyn c d) (Concrete c') = (c = c')"
| "type_assert (Dyn c d) (Interface req) = implements c req"

section \<open>Calls that return or panic\<close>

text \<open>
  A Go call acts on the caller's state \<open>'w\<close> (whatever the closures capture) and ends
  either by returning a value or by panicking with a payload. The fields of a
  \<^verbatim>\<open>TryBlock\<close> are unexported, so the state the callbacks act on does not contain them;
  a block is threaded through one chain of calls, and a callback does not call the
  library again on the block it was invoked for.
\<close>

datatype ('d, 'a, 'w) outcome = Returns 'a 'w | Panics "'d any" 'w

text \<open>\<^verbatim>\<open>fn func()\<close> of \<^verbatim>\<open>Try\<close>, and the handlers of the dispatch functions.\<close>

type_synonym ('d, 'w) func = "'w \<Rightarrow> ('d, unit, 'w) outcome"
type_synonym ('d, 'w) handler = "'d any \<Rightarrow> 'w \<Rightarrow> ('d, unit, 'w) outcome"
type_synonym ('d, 'w) rhandler = "'d any \<Rightarrow> 'w \<Rightarrow> ('d, 'd any, 'w) outcome"

text \<open>
  \<^verbatim>\<open>Finally\<close> runs its argument with \<^verbatim>\<open>defer fn()\<close>, so \<^verbatim>\<open>fn\<close> is the deferred function
  itself, and a call of \<^verbatim>\<open>recover()\<close> in its body sees (and stops) a panic that is in
  flight. A cleanup function therefore takes the value \<^verbatim>\<open>recover()\<close> would give it
  (\<open>GoNil\<close> when no panic is in flight or when it is called directly) and tells, beside
  its outcome, whether it called \<^verbatim>\<open>recover()\<close>.
\<close>

type_synonym ('d, 'w) cleanup = "'d any \<Rightarrow> 'w \<Rightarrow> bool \<times> ('d, unit, 'w) outcome"

text \<open>
  A deferred call that runs while the panic \<open>p\<close> unwinds: a new panic of the deferred
  function replaces \<open>p\<close>; if it returns, \<open>p\<close> goes on unless it was recovered.
\<close>

definition run_deferred :: "('d, 'w) cleanup \<Rightarrow> 'd any \<Rightarrow> 'w \<Rightarrow> ('d, unit, 'w) outcome" where
  "run_deferred fn p w =
     (case fn p w of
        (recovered, Returns u w') \<Rightarrow> if recovered then Returns () w' else Panics p w'
      | (recovered, Panics q w') \<Rightarrow> Panics q w')"

section \<open>The TryBlock and its operations\<close>

record 'd TryBlock =
  err :: "'d any"
  handled :: bool

text \<open>
  What a call of the library leaves behind: \<open>block\<close> is the block the call worked on
  (for a dispatch function that returns, the block its result points to; \<open>None\<close> is the
  nil pointer), \<open>calls\<close> lists the callbacks the call invoked, in order and with their
  arguments, and \<open>ending\<close> tells how the call ended.
\<close>

datatype 'd call = Handler "'d any" | Cleanup

record ('d, 'a, 'w) report =
  block :: "'d TryBlock option"
  calls :: "'d call list"
  ending :: "('d, 'a, 'w) outcome"

text \<open>\<^verbatim>\<open>Throw\<close> is \<^verbatim>\<open>panic(err)\<close>.\<close>

definition Throw :: "'d any \<Rightarrow> 'w \<Rightarrow> ('d, 'a, 'w) outcome" where
  "Throw e w = Panics e w"

text \<open>
  \<^verbatim>\<open>Try\<close>: the deferred closure stores what \<^verbatim>\<open>recover()\<close> returns when that is not nil.
  The README asks for Go 1.18 or later. In that language version \<^verbatim>\<open>recover()\<close> returns
  nil after \<^verbatim>\<open>panic(nil)\<close>, which is what \<open>Panics GoNil\<close> stands for (a module that
  declares Go 1.21 or later gets a \<^verbatim>\<open>*runtime.PanicNilError\<close> in place of the nil).
\<close>

definition Try :: "('d, 'w) func \<Rightarrow> 'w \<Rightarrow> 'd TryBlock \<times> 'w" where
  "Try fn w =
     (let tb = \<lparr>err = GoNil, handled = False\<rparr>
      in case fn w of
           Returns u w' \<Rightarrow> (tb, w')
         | Panics r w' \<Rightarrow> (if r \<noteq> GoNil then tb\<lparr>err := r\<rparr> else tb, w'))"

definition Catch ::
  "gotype \<Rightarrow> 'd TryBlock option \<Rightarrow> ('d, 'w) handler \<Rightarrow> 'w \<Rightarrow> ('d, unit, 'w) report" where
  "Catch T tb handler w =
     (case tb of
        None \<Rightarrow> \<lparr>block = Some \<lparr>err = GoNil, handled = False\<rparr>, calls = [], ending = Returns () w\<rparr>
      | Some b \<Rightarrow>
          if err b \<noteq> GoNil \<and> \<not> handled b then
            if type_assert (err b) T then
              (case handler (err b) w of
                 Returns u w' \<Rightarrow>
                   \<lparr>block = Some (b\<lparr>handled := True\<rparr>), calls = [Handler (err b)],
                    ending = Returns () w'\<rparr>
               | Panics p w' \<Rightarrow>
                   \<lparr>block = Some b, calls = [Handler (err b)], ending = Panics p w'\<rparr>)
            else \<lparr>block = Some b, calls = [], ending = Returns () w\<rparr>
          else \<lparr>block = Some b, calls = [], ending = Returns () w\<rparr>)"

text \<open>The returned pair is the result (the value of \<open>Returns\<close>) and the block.\<close>

definition CatchWithReturn ::
  "gotype \<Rightarrow> 'd TryBlock option \<Rightarrow> ('d, 'w) rhandler \<Rightarrow> 'w \<Rightarrow> ('d, 'd any, 'w) report" where
  "CatchWithReturn T tb handler w =
     (case tb of
        None \<Rightarrow>
          \<lparr>block = Some \<lparr>err = GoNil, handled = False\<rparr>, calls = [], ending = Returns GoNil w\<rparr>
      | Some b \<Rightarrow>
          if err b \<noteq> GoNil \<and> \<not> handled b then
            if type_assert (err b) T then
              (case handler (err b) w of
                 Returns result w' \<Rightarrow>
                   \<lparr>block = Some (b\<lparr>handled := True\<rparr>), calls = [Handler (err b)],
                    ending = Returns result w'\<rparr>
               | Panics p w' \<Rightarrow>
                   \<lparr>block = Some b, calls = [Handler (err b)], ending = Panics p w'\<rparr>)
            else \<lparr>block = Some b, calls = [], ending = Returns GoNil w\<rparr>
          else \<lparr>block = Some b, calls = [], ending = Returns GoNil w\<rparr>)"

definition CatchAny ::
  "'d TryBlock option \<Rightarrow> ('d, 'w) handler \<Rightarrow> 'w \<Rightarrow> ('d, unit, 'w) report" where
  "CatchAny tb handler w =
     (case tb of
        None \<Rightarrow> \<lparr>block = Some \<lparr>err = GoNil, handled = False\<rparr>, calls = [], ending = Returns () w\<rparr>
      | Some b \<Rightarrow>
          if err b \<noteq> GoNil \<and> \<not> handled b then
            (case handler (err b) w of
               Returns u w' \<Rightarrow>
                 \<lparr>block = Some (b\<lparr>handled := True\<rparr>), calls = [Handler (err b)],
                  ending = Returns () w'\<rparr>
             | Panics p w' \<Rightarrow>
                 \<lparr>block = Some b, calls = [Handler (err b)], ending = Panics p w'\<rparr>)
          else \<lparr>block = Some b, calls = [], ending = Returns () w\<rparr>)"

text \<open>
  \<^verbatim>\<open>Finally\<close>: on a nil receiver \<^verbatim>\<open>fn\<close> is called directly. Otherwise it is deferred, and
  the body panics with the payload of a block that is still unhandled; the deferred
  \<^verbatim>\<open>fn\<close> then runs while that panic unwinds.
\<close>

definition Finally ::
  "'d TryBlock option \<Rightarrow> ('d, 'w) cleanup \<Rightarrow> 'w \<Rightarrow> ('d, unit, 'w) report" where
  "Finally tb fn w =
     (case tb of
        None \<Rightarrow> \<lparr>block = None, calls = [Cleanup], ending = snd (fn GoNil w)\<rparr>
      | Some b \<Rightarrow>
          if err b \<noteq> GoNil \<and> \<not> handled b then
            \<lparr>block = Some b, calls = [Cleanup], ending = run_deferred fn (err b) w\<rparr>
          else \<lparr>block = Some b, calls = [Cleanup], ending = snd (fn GoNil w)\<rparr>)"

section \<open>Sequences of calls on one block\<close>

text \<open>
  The caller threads the block through its calls:
  \<^verbatim>\<open>tb = Catch[T1](tb, h1); tb = Catch[T2](tb, h2); tb = tb.CatchAny(h); tb.Finally(fn)\<close>.
  A panic that leaves one call ends the sequence; the calls after it do not run.
  The result of \<^verbatim>\<open>CatchWithReturn\<close> is dropped here, \<^verbatim>\<open>Finally\<close> returns nothing and
  leaves the caller with the pointer it had.
\<close>

datatype ('d, 'w) op =
    OpCatch gotype "('d, 'w) handler"
  | OpCatchWithReturn gotype "('d, 'w) rhandler"
  | OpCatchAny "('d, 'w) handler"
  | OpFinally "('d, 'w) cleanup"

fun is_dispatch :: "('d, 'w) op \<Rightarrow> bool" where
  "is_dispatch (OpFinally fn) = False"
| "is_dispatch _ = True"

definition forget_result :: "('d, 'a, 'w) report \<Rightarrow> ('d, unit, 'w) report" where
  "forget_result r =
     \<lparr>block = block r, calls = calls r,
      ending = (case ending r of Returns x w \<Rightarrow> Returns () w | Panics p w \<Rightarrow> Panics p w)\<rparr>"

fun exec :: "('d, 'w) op \<Rightarrow> 'd TryBlock option \<Rightarrow> 'w \<Rightarrow> ('d, unit, 'w) report" where
  "exec (OpCatch T h) tb w = Catch T tb h w"
| "exec (OpCatchWithReturn T h) tb w = forget_result (CatchWithReturn T tb h w)"
| "exec (OpCatchAny h) tb w = CatchAny tb h w"
| "exec (OpFinally fn) tb w = Finally tb fn w"

fun run_ops :: "('d, 'w) op list \<Rightarrow> 'd TryBlock option \<Rightarrow> 'w \<Rightarrow> ('d, unit, 'w) report" where
  "run_ops [] tb w = \<lparr>block = tb, calls = [], ending = Returns () w\<rparr>"
| "run_ops (x # xs) tb w =
     (let r = exec x tb w
      in case ending r of
           Returns u w' \<Rightarrow> (let r' = run_ops xs (block r) w' in r'\<lparr>calls := calls r @ calls r'\<rparr>)
         | Panics p w' \<Rightarrow> r)"

text \<open>The state of the block after each call of the sequence that ran.\<close>

fun history :: "('d, 'w) op list \<Rightarrow> 'd TryBlock option \<Rightarrow> 'w \<Rightarrow> 'd TryBlock option list" where
  "history [] tb w = []"
| "history (x # xs) tb w =
     (let r = exec x tb w
      in block r # (case ending r of
                      Returns u w' \<Rightarrow> history xs (block r) w'
                    | Panics p w' \<Rightarrow> []))"

text \<open>A chain of typed stages \<^verbatim>\<open>Catch[T1], Catch[T2], ...\<close> closed by \<^verbatim>\<open>CatchAny\<close>.\<close>

definition typed_chain ::
  "(gotype \<times> ('d, 'w) handler) list \<Rightarrow> ('d, 'w) handler \<Rightarrow> ('d, 'w) op list" where
  "typed_chain stages hany = map (\<lambda>(T, h). OpCatch T h) stages @ [OpCatchAny hany]"

text \<open>The first stage, in call order, whose type assertion on the payload succeeds.\<close>

fun first_match ::
  "'d any \<Rightarrow> (gotype \<times> ('d, 'w) handler) list \<Rightarrow> (gotype \<times> ('d, 'w) handler) option" where
  "first_match v [] = None"
| "first_match v ((T, h) # stages) =
     (if type_assert v T then Some (T, h) else first_match v stages)"

text \<open>
  The first stage whose declared type is identical to the dynamic type of the payload:
  the stage that a dispatch by exact type equality would select.
\<close>

fun first_exact ::
  "'d any \<Rightarrow> (gotype \<times> ('d, 'w) handler) list \<Rightarrow> (gotype \<times> ('d, 'w) handler) option" where
  "first_exact v [] = None"
| "first_exact v ((T, h) # stages) =
     (if v \<noteq> GoNil \<and> T = Concrete (dyn_type v) then Some (T, h) else first_exact v stages)"

text \<open>
  What a chain does when only the selected stage runs on the block, the closing
  \<^verbatim>\<open>CatchAny\<close> when no typed stage is selected.
\<close>

fun dispatch_to ::
  "(gotype \<times> ('d, 'w) handler) option \<Rightarrow> ('d, 'w) handler \<Rightarrow> 'd TryBlock option \<Rightarrow> 'w
     \<Rightarrow> ('d, unit, 'w) report" where
  "dispatch_to (Some (T, h)) hany tb w = Catch T tb h w"
| "dispatch_to None hany tb w = CatchAny tb hany w"


text \<open>The handler of \<^verbatim>\<open>Catch\<close> with the effect of a handler of \<^verbatim>\<open>CatchWithReturn\<close>.\<close>

definition void_of :: "('d, 'w) rhandler \<Rightarrow> ('d, 'w) handler" where
  "void_of h v w = (case h v w of Returns result w' \<Rightarrow> Returns () w' | Panics p w' \<Rightarrow> Panics p w')"

section \<open>The types and callbacks of the repository's examples\<close>

text \<open>
  \<^verbatim>\<open>errors.ValidationError\<close> and \<^verbatim>\<open>errors.BusinessLogicError\<close> (\<^verbatim>\<open>errors/errors.go\<close>) have
  the method \<^verbatim>\<open>Error\<close>; \<^verbatim>\<open>parseNumber\<close> of the demo throws the \<^verbatim>\<open>*strconv.NumError\<close> that
  \<^verbatim>\<open>strconv.Atoi\<close> returns.
\<close>

definition go_string :: ctype where "go_string = CType ''string'' []"
definition go_int :: ctype where "go_int = CType ''int'' []"
definition ValidationError :: ctype where
  "ValidationError = CType ''errors.ValidationError'' [''Error'']"
definition BusinessLogicError :: ctype where
  "BusinessLogicError = CType ''errors.BusinessLogicError'' [''Error'']"
definition NumError_ptr :: ctype where
  "NumError_ptr = CType ''*strconv.NumError'' [''Error'', ''Unwrap'']"
definition error_iface :: gotype where "error_iface = Interface [''Error'']"

text \<open>
  Callbacks that append a line to a log, as the tests append to \<^verbatim>\<open>steps\<close>. The
  cleanup \<open>cleanup_recovering\<close> is \<^verbatim>\<open>func() { recover(); steps = append(steps, "cleanup") }\<close>.
\<close>

definition say :: "string \<Rightarrow> ('d, string list) handler" where
  "say line v w = Returns () (w @ [line])"

definition say_and_throw :: "string \<Rightarrow> 'd any \<Rightarrow> ('d, string list) handler" where
  "say_and_throw line p v w = Panics p (w @ [line])"

definition answer :: "'d any \<Rightarrow> ('d, string list) rhandler" where
  "answer result v w = Returns result (w @ [''handler''])"

definition refuse :: "string \<Rightarrow> 'd any \<Rightarrow> ('d, string list) rhandler" where
  "refuse line p v w = Panics p (w @ [line])"

definition run_quietly :: "('d, string list) func" where
  "run_quietly w = Returns () (w @ [''try_block_executed''])"

definition cleanup_plain :: "('d, string list) cleanup" where
  "cleanup_plain p w = (False, Returns () (w @ [''cleanup'']))"

definition cleanup_recovering :: "('d, string list) cleanup" where
  "cleanup_recovering p w = (True, Returns () (w @ [''cleanup'']))"

section \<open>Basic facts about the operations\<close>

lemmas example_defs =
  go_string_def go_int_def ValidationError_def BusinessLogicError_def NumError_ptr_def
  error_iface_def say_def say_and_throw_def answer_def refuse_def run_quietly_def
  cleanup_plain_def cleanup_recovering_def

text \<open>
  The type assertion succeeds exactly on a non-nil value whose dynamic type is \<open>T\<close> itself
  or implements the interface \<open>T\<close>.
\<close>

lemma type_assert_iff:
  "type_assert v T \<longleftrightarrow>
     v \<noteq> GoNil \<and> (T = Concrete (dyn_type v)
        \<or> (\<exists>req. T = Interface req \<and> set req \<subseteq> set (method_set (dyn_type v))))"
proof (cases v)
  case GoNil
  then show ?thesis by simp
next
  case (Dyn c d)
  then show ?thesis by (cases T; cases c) auto
qed

lemma Catch_cases:
  "Catch T (Some b) h w =
     (if err b \<noteq> GoNil \<and> \<not> handled b \<and> type_assert (err b) T then
        (case h (err b) w of
           Returns u w' \<Rightarrow> \<lparr>block = Some (b\<lparr>handled := True\<rparr>), calls = [Handler (err b)],
                            ending = Returns () w'\<rparr>
         | Panics p w' \<Rightarrow> \<lparr>block = Some b, calls = [Handler (err b)], ending = Panics p w'\<rparr>)
      else \<lparr>block = Some b, calls = [], ending = Returns () w\<rparr>)"
  by (simp add: Catch_def)

lemma CatchWithReturn_cases:
  "CatchWithReturn T (Some b) h w =
     (if err b \<noteq> GoNil \<and> \<not> handled b \<and> type_assert (err b) T then
        (case h (err b) w of
           Returns result w' \<Rightarrow>
             \<lparr>block = Some (b\<lparr>handled := True\<rparr>), calls = [Handler (err b)],
              ending = Returns result w'\<rparr>
         | Panics p w' \<Rightarrow> \<lparr>block = Some b, calls = [Handler (err b)], ending = Panics p w'\<rparr>)
      else \<lparr>block = Some b, calls = [], ending = Returns GoNil w\<rparr>)"
  by (simp add: CatchWithReturn_def)

lemma CatchAny_cases:
  "CatchAny (Some b) h w =
     (if err b \<noteq> GoNil \<and> \<not> handled b then
        (case h (err b) w of
           Returns u w' \<Rightarrow> \<lparr>block = Some (b\<lparr>handled := True\<rparr>), calls = [Handler (err b)],
                            ending = Returns () w'\<rparr>
         | Panics p w' \<Rightarrow> \<lparr>block = Some b, calls = [Handler (err b)], ending = Panics p w'\<rparr>)
      else \<lparr>block = Some b, calls = [], ending = Returns () w\<rparr>)"
  by (simp add: CatchAny_def)

lemma Finally_cases:
  "Finally (Some b) fn w =
     \<lparr>block = Some b, calls = [Cleanup],
      ending = (if err b \<noteq> GoNil \<and> \<not> handled b then run_deferred fn (err b) w
                else snd (fn GoNil w))\<rparr>"
  by (simp add: Finally_def)


lemma Try_Panics:
  "fn w = Panics v w' \<Longrightarrow> v \<noteq> GoNil \<Longrightarrow> Try fn w = (\<lparr>err = v, handled = False\<rparr>, w')"
  by (simp add: Try_def)

lemma Try_handled: "handled (fst (Try fn w)) = False"
  by (simp add: Try_def Let_def split: outcome.splits)

lemma Try_err:
  "err (fst (Try fn w)) = (case fn w of Returns u w' \<Rightarrow> GoNil | Panics r w' \<Rightarrow> r)"
  by (simp add: Try_def Let_def split: outcome.splits)



lemma calls_Catch_match:
  "err b \<noteq> GoNil \<Longrightarrow> \<not> handled b \<Longrightarrow> type_assert (err b) T \<Longrightarrow>
     calls (Catch T (Some b) h w) = [Handler (err b)]"
  by (simp add: Catch_cases split: outcome.splits)

lemma calls_CatchAny_unhandled:
  "err b \<noteq> GoNil \<Longrightarrow> \<not> handled b \<Longrightarrow> calls (CatchAny (Some b) h w) = [Handler (err b)]"
  by (simp add: CatchAny_cases split: outcome.splits)

subsection \<open>One call of a sequence\<close>

text \<open>A dispatch call on a block that is handled or clean does nothing.\<close>

lemma exec_settled:
  assumes "is_dispatch x" and "handled b \<or> err b = GoNil"
  shows "exec x (Some b) w = \<lparr>block = Some b, calls = [], ending = Returns () w\<rparr>"
  using assms
  by (cases x) (auto simp: Catch_cases CatchWithReturn_cases CatchAny_cases forget_result_def)

lemma run_ops_settled:
  assumes "\<forall>x \<in> set xs. is_dispatch x" and "handled b \<or> err b = GoNil"
  shows "run_ops xs (Some b) w = \<lparr>block = Some b, calls = [], ending = Returns () w\<rparr>"
  using assms by (induction xs) (simp_all add: exec_settled)


text \<open>No call changes the payload, and the flag only goes from false to true.\<close>

lemma exec_block:
  "block (exec x (Some b) w) = Some b
   \<or> (err b \<noteq> GoNil \<and> \<not> handled b \<and> block (exec x (Some b) w) = Some (b\<lparr>handled := True\<rparr>))"
  by (cases x)
     (auto simp: Catch_cases CatchWithReturn_cases CatchAny_cases Finally_cases forget_result_def
           split: outcome.splits)

lemma exec_block_handled: "handled b \<Longrightarrow> block (exec x (Some b) w) = Some b"
  using exec_block [of x b w] by auto

lemma run_ops_single: "run_ops [x] tb w = exec x tb w"
proof (cases "ending (exec x tb w)")
  case (Returns u w')
  then show ?thesis by (simp add: Let_def)
next
  case (Panics p w')
  then show ?thesis by (simp add: Let_def)
qed

subsection \<open>Sequences of calls\<close>


lemma typed_chain_all_dispatch: "\<forall>x \<in> set (typed_chain stages hany). is_dispatch x"
  by (auto simp: typed_chain_def)

lemma typed_chain_Cons:
  "typed_chain ((T, h) # stages) hany = OpCatch T h # typed_chain stages hany"
  by (simp add: typed_chain_def)

lemma first_match_asserts: "first_match v stages = Some (T, h) \<Longrightarrow> type_assert v T"
  by (induction stages) (auto split: if_splits)

text \<open>
  A chain on an unhandled block does what its first matching stage alone does: the
  stages before it skip, the stages after it find the block handled (or never run,
  when the handler panics).
\<close>

lemma run_typed_chain:
  assumes "v \<noteq> GoNil"
  shows "run_ops (typed_chain stages hany) (Some \<lparr>err = v, handled = False\<rparr>) w =
           dispatch_to (first_match v stages) hany (Some \<lparr>err = v, handled = False\<rparr>) w"
proof (induction stages)
  case Nil
  have "typed_chain [] hany = [OpCatchAny hany]" by (simp add: typed_chain_def)
  then show ?case
    by (simp only: run_ops_single first_match.simps dispatch_to.simps exec.simps)
next
  case (Cons st stages)
  obtain T h where st: "st = (T, h)" by (cases st)
  let ?tb = "\<lparr>err = v, handled = False\<rparr>"
  show ?case
  proof (cases "type_assert v T")
    case False
    then have "exec (OpCatch T h) (Some ?tb) w =
                 \<lparr>block = Some ?tb, calls = [], ending = Returns () w\<rparr>"
      by (simp add: Catch_cases)
    then have "run_ops (typed_chain (st # stages) hany) (Some ?tb) w =
                 run_ops (typed_chain stages hany) (Some ?tb) w"
      unfolding st typed_chain_Cons by (simp add: Let_def)
    with Cons.IH False show ?thesis by (simp add: st)
  next
    case True
    show ?thesis
    proof (cases "h v w")
      case (Returns u w')
      have r: "exec (OpCatch T h) (Some ?tb) w =
                 \<lparr>block = Some (?tb\<lparr>handled := True\<rparr>), calls = [Handler v],
                  ending = Returns () w'\<rparr>"
        using True Returns assms by (simp add: Catch_cases)
      have rest: "run_ops (typed_chain stages hany) (Some (?tb\<lparr>handled := True\<rparr>)) w' =
                    \<lparr>block = Some (?tb\<lparr>handled := True\<rparr>), calls = [], ending = Returns () w'\<rparr>"
        by (rule run_ops_settled [OF typed_chain_all_dispatch]) simp
      have "run_ops (typed_chain (st # stages) hany) (Some ?tb) w =
              exec (OpCatch T h) (Some ?tb) w"
        unfolding st typed_chain_Cons run_ops.simps r using rest by (simp add: Let_def)
      with True show ?thesis by (simp add: st)
    next
      case (Panics p w')
      have r: "exec (OpCatch T h) (Some ?tb) w =
                 \<lparr>block = Some ?tb, calls = [Handler v], ending = Panics p w'\<rparr>"
        using True Panics assms by (simp add: Catch_cases)
      have "run_ops (typed_chain (st # stages) hany) (Some ?tb) w =
              exec (OpCatch T h) (Some ?tb) w"
        unfolding st typed_chain_Cons run_ops.simps r by simp
      with True show ?thesis by (simp add: st)
    qed
  qed
qed

lemma calls_run_typed_chain:
  assumes "v \<noteq> GoNil"
  shows "calls (run_ops (typed_chain stages hany) (Some \<lparr>err = v, handled = False\<rparr>) w)
           = [Handler v]"
proof (cases "first_match v stages")
  case None
  then show ?thesis
    using assms calls_CatchAny_unhandled [of "\<lparr>err = v, handled = False\<rparr>" hany w]
    by (simp add: run_typed_chain)
next
  case (Some st)
  obtain T h where st: "st = (T, h)" by (cases st)
  have "type_assert v T" using Some st first_match_asserts by blast
  then show ?thesis
    using assms Some st calls_Catch_match [of "\<lparr>err = v, handled = False\<rparr>" T h w]
    by (simp add: run_typed_chain)
qed

subsection \<open>The history of a block\<close>

lemma history_handled:
  "handled b \<Longrightarrow> history xs (Some b) w = replicate (length (history xs (Some b) w)) (Some b)"
proof (induction xs arbitrary: w)
  case Nil
  then show ?case by simp
next
  case (Cons x xs)
  have blk: "block (exec x (Some b) w) = Some b"
    using Cons.prems by (rule exec_block_handled)
  show ?case
  proof (cases "ending (exec x (Some b) w)")
    case (Returns u w')
    with blk Cons.IH [OF Cons.prems, of w'] show ?thesis by (simp add: Let_def)
  next
    case (Panics p w')
    with blk show ?thesis by (simp add: Let_def)
  qed
qed

text \<open>
  The states a block goes through: first the state it started in, then, from the one
  call that handled it on, that state with the flag set.
\<close>

lemma history_shape:
  "\<exists>k \<le> length (history xs (Some b) w).
     history xs (Some b) w =
       replicate k (Some b)
       @ replicate (length (history xs (Some b) w) - k) (Some (b\<lparr>handled := True\<rparr>))
     \<and> (k < length (history xs (Some b) w) \<longrightarrow> err b \<noteq> GoNil \<and> \<not> handled b)"
proof (induction xs arbitrary: w)
  case Nil
  then show ?case by simp
next
  case (Cons x xs)
  let ?r = "exec x (Some b) w"
  let ?b' = "b\<lparr>handled := True\<rparr>"
  consider (same) "block ?r = Some b"
    | (flip) "err b \<noteq> GoNil" "\<not> handled b" "block ?r = Some ?b'"
    using exec_block [of x b w] by blast
  then show ?case
  proof cases
    case same
    show ?thesis
    proof (cases "ending ?r")
      case (Returns u w')
      from Cons.IH [of w'] obtain k where
        k: "k \<le> length (history xs (Some b) w')"
           "history xs (Some b) w' =
              replicate k (Some b)
              @ replicate (length (history xs (Some b) w') - k) (Some ?b')"
           "k < length (history xs (Some b) w') \<longrightarrow> err b \<noteq> GoNil \<and> \<not> handled b"
        by blast
      have H: "history (x # xs) (Some b) w = Some b # history xs (Some b) w'"
        using same Returns by (simp add: Let_def)
      show ?thesis
      proof (intro exI [of _ "Suc k"] conjI)
        show "Suc k \<le> length (history (x # xs) (Some b) w)"
          unfolding H using k(1) by simp
        show "history (x # xs) (Some b) w =
                replicate (Suc k) (Some b)
                @ replicate (length (history (x # xs) (Some b) w) - Suc k) (Some ?b')"
          unfolding H using k(2) by simp
        show "Suc k < length (history (x # xs) (Some b) w) \<longrightarrow> err b \<noteq> GoNil \<and> \<not> handled b"
          unfolding H using k(3) by simp
      qed
    next
      case (Panics p w')
      have H: "history (x # xs) (Some b) w = [Some b]"
        using same Panics by (simp add: Let_def)
      show ?thesis
        unfolding H by (rule exI [of _ "Suc 0"]) simp
    qed
  next
    case flip
    have hb': "handled ?b'" by simp
    show ?thesis
    proof (cases "ending ?r")
      case (Returns u w')
      have H: "history (x # xs) (Some b) w = Some ?b' # history xs (Some ?b') w'"
        using flip(3) Returns by (simp add: Let_def)
      have "history xs (Some ?b') w' = replicate (length (history xs (Some ?b') w')) (Some ?b')"
        using hb' by (rule history_handled)
      then have "Some ?b' # history xs (Some ?b') w' =
                   replicate (length (Some ?b' # history xs (Some ?b') w')) (Some ?b')"
        by simp
      then show ?thesis
        unfolding H using flip(1,2) by (intro exI [of _ 0]) simp
    next
      case (Panics p w')
      have H: "history (x # xs) (Some b) w = [Some ?b']"
        using flip(3) Panics by (simp add: Let_def)
      show ?thesis
        unfolding H using flip(1,2) by (intro exI [of _ 0]) simp
    qed
  qed
qed

section \<open>Typed dispatch\<close>

text \<open>
  C1, as the code has it. \<^verbatim>\<open>Catch[T]\<close> on a block invokes the handler, once and with
  the captured payload, if and only if the block is unhandled (a payload is present and
  the flag is not set) and the type assertion succeeds: the dynamic type of the payload
  is \<open>T\<close> itself, or \<open>T\<close> is an interface type that the dynamic type implements. When
  the handler is not invoked, the block comes back unchanged and nothing else happens;
  when the handler is invoked and returns, the block comes back with the flag set. On
  the nil pointer a fresh empty block is returned and the handler is not invoked.
\<close>

theorem Catch_dispatch:
  "(calls (Catch T (Some b) h w) =
      (if err b \<noteq> GoNil \<and> \<not> handled b
          \<and> (T = Concrete (dyn_type (err b))
              \<or> (\<exists>req. T = Interface req \<and> set req \<subseteq> set (method_set (dyn_type (err b)))))
       then [Handler (err b)] else []))
   \<and> (calls (Catch T (Some b) h w) = [] \<longrightarrow>
        Catch T (Some b) h w = \<lparr>block = Some b, calls = [], ending = Returns () w\<rparr>)
   \<and> (\<forall>w'. calls (Catch T (Some b) h w) \<noteq> [] \<and> h (err b) w = Returns () w' \<longrightarrow>
        Catch T (Some b) h w =
          \<lparr>block = Some (b\<lparr>handled := True\<rparr>), calls = [Handler (err b)], ending = Returns () w'\<rparr>)
   \<and> Catch T None h w =
        \<lparr>block = Some \<lparr>err = GoNil, handled = False\<rparr>, calls = [], ending = Returns () w\<rparr>"
proof -
  have "Catch T None h w =
          \<lparr>block = Some \<lparr>err = GoNil, handled = False\<rparr>, calls = [], ending = Returns () w\<rparr>"
    by (simp add: Catch_def)
  then show ?thesis
    unfolding Catch_cases using type_assert_iff [of "err b" T]
    by (auto split: outcome.splits)
qed

text \<open>
  The theorem at the test \<^verbatim>\<open>TestCatch_MatchingType\<close> (a string payload, \<^verbatim>\<open>Catch[string]\<close>)
  and at \<^verbatim>\<open>TestCatch_NonMatchingType\<close> (an int payload, \<^verbatim>\<open>Catch[string]\<close>).
\<close>

theorem Catch_dispatch_witness:
  "Catch (Concrete go_string) (Some \<lparr>err = Dyn go_string ''test string error'', handled = False\<rparr>)
     (say ''caught'') []
     = \<lparr>block = Some \<lparr>err = Dyn go_string ''test string error'', handled = True\<rparr>,
        calls = [Handler (Dyn go_string ''test string error'')],
        ending = Returns () [''caught'']\<rparr>
   \<and> Catch (Concrete go_string) (Some \<lparr>err = Dyn go_int ''123'', handled = False\<rparr>)
        (say ''caught'') []
     = \<lparr>block = Some \<lparr>err = Dyn go_int ''123'', handled = False\<rparr>, calls = [],
        ending = Returns () []\<rparr>"
  using
    Catch_dispatch [of "Concrete go_string"
      "\<lparr>err = Dyn go_string ''test string error'', handled = False\<rparr>" "say ''caught''" "[]"]
    Catch_dispatch [of "Concrete go_string"
      "\<lparr>err = Dyn go_int ''123'', handled = False\<rparr>" "say ''caught''" "[]"]
  by (simp add: example_defs)

text \<open>
  C1 as stated fails: in demo 3 the payload is the \<^verbatim>\<open>*strconv.NumError\<close> of
  \<^verbatim>\<open>strconv.Atoi\<close>, and \<^verbatim>\<open>Catch[error]\<close> invokes its handler and sets the flag although
  the dynamic type of the payload is not the declared type \<^verbatim>\<open>error\<close>.
\<close>

theorem Catch_exact_type_counterexample:
  "Catch error_iface
     (Some \<lparr>err = Dyn NumError_ptr ''invalid syntax'', handled = False\<rparr>)
     (say ''Standard error'') []
     = \<lparr>block = Some \<lparr>err = Dyn NumError_ptr ''invalid syntax'', handled = True\<rparr>,
        calls = [Handler (Dyn NumError_ptr ''invalid syntax'')],
        ending = Returns () [''Standard error'']\<rparr>
   \<and> Concrete (dyn_type (Dyn NumError_ptr ''invalid syntax'')) \<noteq> error_iface"
  by (simp add: Catch_def example_defs)

text \<open>
  C2, as the code has it. For a non-nil payload \<open>v\<close> that the function passed to
  \<^verbatim>\<open>Try\<close> panics with (the block then holds \<open>v\<close>, unhandled) and a chain
  \<^verbatim>\<open>Catch[T1], Catch[T2], ..., CatchAny\<close>, the chain does what the first stage in call
  order whose type assertion on \<open>v\<close> succeeds does alone on the block (the closing
  \<^verbatim>\<open>CatchAny\<close> when no typed stage matches), and exactly one handler is invoked, with
  \<open>v\<close>. The assertion of a stage succeeds when its declared type is the dynamic type of
  \<open>v\<close> or an interface type which that type implements.
\<close>

theorem chain_first_match:
  assumes "fn w0 = Panics v w" and "v \<noteq> GoNil"
  shows "Try fn w0 = (\<lparr>err = v, handled = False\<rparr>, w)
    \<and> run_ops (typed_chain stages hany) (Some \<lparr>err = v, handled = False\<rparr>) w =
        dispatch_to (first_match v stages) hany (Some \<lparr>err = v, handled = False\<rparr>) w
    \<and> calls (run_ops (typed_chain stages hany) (Some \<lparr>err = v, handled = False\<rparr>) w) = [Handler v]
    \<and> (\<forall>T. type_assert v T \<longleftrightarrow>
          T = Concrete (dyn_type v)
          \<or> (\<exists>req. T = Interface req \<and> set req \<subseteq> set (method_set (dyn_type v))))"
proof -
  have "Try fn w0 = (\<lparr>err = v, handled = False\<rparr>, w)"
    using assms by (rule Try_Panics)
  moreover have "run_ops (typed_chain stages hany) (Some \<lparr>err = v, handled = False\<rparr>) w =
        dispatch_to (first_match v stages) hany (Some \<lparr>err = v, handled = False\<rparr>) w"
    using assms(2) by (rule run_typed_chain)
  moreover have
    "calls (run_ops (typed_chain stages hany) (Some \<lparr>err = v, handled = False\<rparr>) w) = [Handler v]"
    using assms(2) by (rule calls_run_typed_chain)
  moreover have "\<forall>T. type_assert v T \<longleftrightarrow>
          T = Concrete (dyn_type v)
          \<or> (\<exists>req. T = Interface req \<and> set req \<subseteq> set (method_set (dyn_type v)))"
    using assms(2) type_assert_iff [of v] by simp
  ultimately show ?thesis by blast
qed

text \<open>
  The theorem at the integration test: a \<^verbatim>\<open>ValidationError\<close> is thrown, the first stage
  guards another type and skips, the second stage is \<^verbatim>\<open>Catch[ValidationError]\<close>.
\<close>

theorem chain_first_match_witness:
  "Throw (Dyn ValidationError ''name'') ([] :: string list)
     = (Panics (Dyn ValidationError ''name'') [] :: (string, unit, string list) outcome)
   \<and> Dyn ValidationError ''name'' \<noteq> GoNil
   \<and> Try (Throw (Dyn ValidationError ''name'')) ([] :: string list)
     = (\<lparr>err = Dyn ValidationError ''name'', handled = False\<rparr>, [])
   \<and> run_ops
       (typed_chain [(Concrete BusinessLogicError, say ''business_handler_called''),
                     (Concrete ValidationError, say ''validation_handler_called'')]
          (say ''any_handler_called''))
       (Some \<lparr>err = Dyn ValidationError ''name'', handled = False\<rparr>) []
     = \<lparr>block = Some \<lparr>err = Dyn ValidationError ''name'', handled = True\<rparr>,
        calls = [Handler (Dyn ValidationError ''name'')],
        ending = Returns () [''validation_handler_called'']\<rparr>"
  using chain_first_match [of "Throw (Dyn ValidationError ''name'')" "[]"
      "Dyn ValidationError ''name''" "[]"
      "[(Concrete BusinessLogicError, say ''business_handler_called''),
        (Concrete ValidationError, say ''validation_handler_called'')]"
      "say ''any_handler_called''"]
  by (simp add: Throw_def Catch_def example_defs)

text \<open>
  C2 as stated fails: with the chain \<^verbatim>\<open>Catch[error], Catch[ValidationError], CatchAny\<close>
  and a \<^verbatim>\<open>ValidationError\<close> payload the handler of \<^verbatim>\<open>Catch[error]\<close> runs, not the handler
  of the first stage whose declared type equals the type of the payload.
\<close>

theorem chain_exact_type_counterexample:
  "ending (run_ops
      (typed_chain [(error_iface, say ''error handler''),
                    (Concrete ValidationError, say ''validation handler'')] (say ''any handler''))
      (Some (fst (Try (Throw (Dyn ValidationError ''name'')) ([] :: string list)))) [])
     = Returns () [''error handler'']
   \<and> ending (dispatch_to
        (first_exact (Dyn ValidationError ''name'')
           [(error_iface, say ''error handler''),
            (Concrete ValidationError, say ''validation handler'')])
        (say ''any handler'')
        (Some (fst (Try (Throw (Dyn ValidationError ''name'')) ([] :: string list)))) [])
     = Returns () [''validation handler'']"
  by (simp add: typed_chain_def Try_def Throw_def Catch_def CatchAny_def example_defs)

section \<open>Cleanup and re-raise\<close>







section \<open>Settled blocks\<close>

text \<open>
  C5. On a block whose flag is set, \<^verbatim>\<open>Catch\<close>, \<^verbatim>\<open>CatchWithReturn\<close> and \<^verbatim>\<open>CatchAny\<close>
  invoke no handler and return the block unchanged (\<^verbatim>\<open>CatchWithReturn\<close> with the nil
  result), whatever the type argument and the handler.
\<close>

theorem dispatch_idempotent:
  assumes "handled b"
  shows "Catch T (Some b) h w = \<lparr>block = Some b, calls = [], ending = Returns () w\<rparr>
    \<and> CatchWithReturn T (Some b) hr w = \<lparr>block = Some b, calls = [], ending = Returns GoNil w\<rparr>
    \<and> CatchAny (Some b) h w = \<lparr>block = Some b, calls = [], ending = Returns () w\<rparr>"
  using assms by (simp add: Catch_cases CatchWithReturn_cases CatchAny_cases)

theorem dispatch_idempotent_witness:
  "handled \<lparr>err = Dyn go_string ''test error'', handled = True\<rparr>
   \<and> Catch (Concrete go_string) (Some \<lparr>err = Dyn go_string ''test error'', handled = True\<rparr>)
       (say ''again'') []
     = \<lparr>block = Some \<lparr>err = Dyn go_string ''test error'', handled = True\<rparr>, calls = [],
        ending = Returns () []\<rparr>
   \<and> CatchWithReturn (Concrete go_string)
       (Some \<lparr>err = Dyn go_string ''test error'', handled = True\<rparr>)
       (answer (Dyn go_string ''fallback'')) []
     = \<lparr>block = Some \<lparr>err = Dyn go_string ''test error'', handled = True\<rparr>, calls = [],
        ending = Returns GoNil []\<rparr>
   \<and> CatchAny (Some \<lparr>err = Dyn go_string ''test error'', handled = True\<rparr>) (say ''again'') []
     = \<lparr>block = Some \<lparr>err = Dyn go_string ''test error'', handled = True\<rparr>, calls = [],
        ending = Returns () []\<rparr>"
  using dispatch_idempotent [of "\<lparr>err = Dyn go_string ''test error'', handled = True\<rparr>"
      "Concrete go_string" "say ''again''" "[]" "answer (Dyn go_string ''fallback'')"]
  by simp

text \<open>
  C6. When the function passed to \<^verbatim>\<open>Try\<close> returns, the block is clean (no payload,
  flag not set); a following sequence of dispatch calls invokes no handler and leaves
  the block and the state as they are; \<^verbatim>\<open>Finally\<close> calls the cleanup exactly once and
  ends as the cleanup ends, with no panic of its own.
\<close>

theorem clean_run:
  assumes "fn w = Returns () w1" and "\<forall>x \<in> set xs. is_dispatch x"
  shows "Try fn w = (\<lparr>err = GoNil, handled = False\<rparr>, w1)
    \<and> run_ops xs (Some \<lparr>err = GoNil, handled = False\<rparr>) w1 =
        \<lparr>block = Some \<lparr>err = GoNil, handled = False\<rparr>, calls = [], ending = Returns () w1\<rparr>
    \<and> calls (Finally (Some \<lparr>err = GoNil, handled = False\<rparr>) cl w1) = [Cleanup]
    \<and> ending (Finally (Some \<lparr>err = GoNil, handled = False\<rparr>) cl w1) = snd (cl GoNil w1)"
proof -
  have "Try fn w = (\<lparr>err = GoNil, handled = False\<rparr>, w1)"
    using assms(1) by (simp add: Try_def)
  moreover have "run_ops xs (Some \<lparr>err = GoNil, handled = False\<rparr>) w1 =
        \<lparr>block = Some \<lparr>err = GoNil, handled = False\<rparr>, calls = [], ending = Returns () w1\<rparr>"
    by (rule run_ops_settled [OF assms(2)]) simp
  ultimately show ?thesis by (simp add: Finally_cases)
qed

theorem clean_run_witness:
  "(run_quietly :: (string, string list) func) [] = Returns () [''try_block_executed'']
   \<and> is_dispatch (OpCatch (Concrete go_string) (say ''string handler''))
   \<and> is_dispatch (OpCatchAny (say ''any handler''))
   \<and> Try (run_quietly :: (string, string list) func) []
       = (\<lparr>err = GoNil, handled = False\<rparr>, [''try_block_executed''])
   \<and> run_ops [OpCatch (Concrete go_string) (say ''string handler''),
              OpCatchAny (say ''any handler'')]
        (Some \<lparr>err = (GoNil :: string any), handled = False\<rparr>) [''try_block_executed'']
       = \<lparr>block = Some \<lparr>err = GoNil, handled = False\<rparr>, calls = [],
          ending = Returns () [''try_block_executed'']\<rparr>
   \<and> calls (Finally (Some \<lparr>err = (GoNil :: string any), handled = False\<rparr>) cleanup_plain
              [''try_block_executed'']) = [Cleanup]
   \<and> ending (Finally (Some \<lparr>err = (GoNil :: string any), handled = False\<rparr>) cleanup_plain
               [''try_block_executed''])
       = Returns () [''try_block_executed'', ''cleanup'']"
proof -
  have r: "(run_quietly :: (string, string list) func) [] = Returns () [''try_block_executed'']"
    by (simp add: run_quietly_def)
  have d: "\<forall>x \<in> set [OpCatch (Concrete go_string) (say ''string handler''),
                       OpCatchAny (say ''any handler'')]. is_dispatch x"
    by simp
  from clean_run [of run_quietly "[]" "[''try_block_executed'']" _ cleanup_plain, OF r d] r
  show ?thesis
    by (simp add: cleanup_plain_def)
qed

section \<open>The variant with a result\<close>

text \<open>
  C7. \<^verbatim>\<open>CatchWithReturn\<close> leaves the same block, invokes the same calls and ends the
  same way (the result apart) as \<^verbatim>\<open>Catch\<close> with the same type argument and a handler
  of the same effect, on every block and the nil pointer. Its result is the value the
  handler returned when the block is unhandled and the type assertion succeeds, and
  nil when they do not.
\<close>

theorem CatchWithReturn_refines_Catch:
  "block (CatchWithReturn T tb h w) = block (Catch T tb (void_of h) w)
   \<and> calls (CatchWithReturn T tb h w) = calls (Catch T tb (void_of h) w)
   \<and> forget_result (CatchWithReturn T tb h w) = Catch T tb (void_of h) w
   \<and> (\<forall>b result w'. tb = Some b \<and> err b \<noteq> GoNil \<and> \<not> handled b \<and> type_assert (err b) T
         \<and> h (err b) w = Returns result w' \<longrightarrow>
         ending (CatchWithReturn T tb h w) = Returns result w')
   \<and> (\<not> (\<exists>b. tb = Some b \<and> err b \<noteq> GoNil \<and> \<not> handled b \<and> type_assert (err b) T) \<longrightarrow>
         ending (CatchWithReturn T tb h w) = Returns GoNil w)"
proof -
  have eq: "forget_result (CatchWithReturn T tb h w) = Catch T tb (void_of h) w"
    by (cases tb)
       (auto simp: CatchWithReturn_def Catch_def forget_result_def void_of_def
             split: outcome.splits)
  then have "block (CatchWithReturn T tb h w) = block (Catch T tb (void_of h) w)"
    and "calls (CatchWithReturn T tb h w) = calls (Catch T tb (void_of h) w)"
    by (simp_all add: forget_result_def flip: eq)
  moreover have "\<forall>b result w'. tb = Some b \<and> err b \<noteq> GoNil \<and> \<not> handled b \<and> type_assert (err b) T
         \<and> h (err b) w = Returns result w' \<longrightarrow>
         ending (CatchWithReturn T tb h w) = Returns result w'"
    by (auto simp: CatchWithReturn_cases)
  moreover have "\<not> (\<exists>b. tb = Some b \<and> err b \<noteq> GoNil \<and> \<not> handled b \<and> type_assert (err b) T) \<longrightarrow>
         ending (CatchWithReturn T tb h w) = Returns GoNil w"
    by (cases tb) (auto simp: CatchWithReturn_def)
  ultimately show ?thesis using eq by blast
qed

text \<open>
  The theorem at the test \<^verbatim>\<open>TestCatchWithReturn\<close> (a string payload, a handler that
  returns a value) and at a payload of another type.
\<close>

theorem CatchWithReturn_refines_Catch_witness:
  "ending (CatchWithReturn (Concrete go_string)
             (Some \<lparr>err = Dyn go_string ''test error'', handled = False\<rparr>)
             (answer (Dyn go_string ''expected result'')) [])
     = Returns (Dyn go_string ''expected result'') [''handler'']
   \<and> block (CatchWithReturn (Concrete go_string)
             (Some \<lparr>err = Dyn go_string ''test error'', handled = False\<rparr>)
             (answer (Dyn go_string ''expected result'')) [])
     = block (Catch (Concrete go_string)
             (Some \<lparr>err = Dyn go_string ''test error'', handled = False\<rparr>)
             (void_of (answer (Dyn go_string ''expected result''))) [])
   \<and> ending (CatchWithReturn (Concrete go_string)
             (Some \<lparr>err = Dyn go_int ''123'', handled = False\<rparr>)
             (answer (Dyn go_string ''expected result'')) [])
     = Returns GoNil []"
  using
    CatchWithReturn_refines_Catch [of "Concrete go_string"
      "Some \<lparr>err = Dyn go_string ''test error'', handled = False\<rparr>"
      "answer (Dyn go_string ''expected result'')" "[]"]
    CatchWithReturn_refines_Catch [of "Concrete go_string"
      "Some \<lparr>err = Dyn go_int ''123'', handled = False\<rparr>"
      "answer (Dyn go_string ''expected result'')" "[]"]
  by (simp add: example_defs)

text \<open>
  C10. When the handler of a matching \<^verbatim>\<open>CatchWithReturn\<close> returns nil, the result is
  nil although the handler ran and the block became handled; a call whose type does
  not match gives the same nil result with the block untouched. The result alone does
  not tell the two apart.
\<close>

theorem none_result_ambiguous:
  assumes "err b \<noteq> GoNil" and "\<not> handled b" and "type_assert (err b) T"
    and "h (err b) w = Returns GoNil w'" and "\<not> type_assert (err b) T'"
  shows "CatchWithReturn T (Some b) h w =
           \<lparr>block = Some (b\<lparr>handled := True\<rparr>), calls = [Handler (err b)],
            ending = Returns GoNil w'\<rparr>
    \<and> CatchWithReturn T' (Some b) h w =
           \<lparr>block = Some b, calls = [], ending = Returns GoNil w\<rparr>"
  using assms by (simp add: CatchWithReturn_cases)

theorem none_result_ambiguous_witness:
  "err \<lparr>err = Dyn go_string ''test error'', handled = False\<rparr> \<noteq> GoNil
   \<and> \<not> handled \<lparr>err = Dyn go_string ''test error'', handled = False\<rparr>
   \<and> type_assert (Dyn go_string ''test error'') (Concrete go_string)
   \<and> answer GoNil (Dyn go_string ''test error'') [] = Returns GoNil [''handler'']
   \<and> \<not> type_assert (Dyn go_string ''test error'') (Concrete go_int)
   \<and> CatchWithReturn (Concrete go_string)
        (Some \<lparr>err = Dyn go_string ''test error'', handled = False\<rparr>) (answer GoNil) []
     = \<lparr>block = Some \<lparr>err = Dyn go_string ''test error'', handled = True\<rparr>,
        calls = [Handler (Dyn go_string ''test error'')], ending = Returns GoNil [''handler'']\<rparr>
   \<and> CatchWithReturn (Concrete go_int)
        (Some \<lparr>err = Dyn go_string ''test error'', handled = False\<rparr>) (answer GoNil) []
     = \<lparr>block = Some \<lparr>err = Dyn go_string ''test error'', handled = False\<rparr>,
        calls = [], ending = Returns GoNil []\<rparr>"
  using none_result_ambiguous [of "\<lparr>err = Dyn go_string ''test error'', handled = False\<rparr>"
      "Concrete go_string" "answer GoNil" "[]" "[''handler'']" "Concrete go_int"]
  by (simp add: example_defs)

section \<open>A handler that panics\<close>

text \<open>
  C9. When the handler that \<^verbatim>\<open>Catch\<close>, \<^verbatim>\<open>CatchWithReturn\<close> or \<^verbatim>\<open>CatchAny\<close> invokes
  panics with a payload \<open>p\<close>, the call ends with that panic, and the block keeps its
  payload and its flag stays unset: the flag is set only after the handler returned.
\<close>

theorem handler_panic_propagates:
  assumes "err b \<noteq> GoNil" and "\<not> handled b"
  shows "(type_assert (err b) T \<and> h (err b) w = Panics p w' \<longrightarrow>
            Catch T (Some b) h w =
              \<lparr>block = Some b, calls = [Handler (err b)], ending = Panics p w'\<rparr>)
    \<and> (type_assert (err b) T \<and> hr (err b) w = Panics p w' \<longrightarrow>
            CatchWithReturn T (Some b) hr w =
              \<lparr>block = Some b, calls = [Handler (err b)], ending = Panics p w'\<rparr>)
    \<and> (h (err b) w = Panics p w' \<longrightarrow>
            CatchAny (Some b) h w =
              \<lparr>block = Some b, calls = [Handler (err b)], ending = Panics p w'\<rparr>)"
  using assms by (simp add: Catch_cases CatchWithReturn_cases CatchAny_cases)

text \<open>
  The theorem at demo 5: the inner handler of \<^verbatim>\<open>Catch[ValidationError]\<close> throws a
  \<^verbatim>\<open>BusinessLogicError\<close>.
\<close>

theorem handler_panic_propagates_witness:
  "err \<lparr>err = Dyn ValidationError ''name'', handled = False\<rparr> \<noteq> GoNil
   \<and> \<not> handled \<lparr>err = Dyn ValidationError ''name'', handled = False\<rparr>
   \<and> type_assert (Dyn ValidationError ''name'') (Concrete ValidationError)
   \<and> say_and_throw ''Inner catch'' (Dyn BusinessLogicError ''user_validation'')
        (Dyn ValidationError ''name'') []
      = Panics (Dyn BusinessLogicError ''user_validation'') [''Inner catch'']
   \<and> refuse ''Inner catch'' (Dyn BusinessLogicError ''user_validation'')
        (Dyn ValidationError ''name'') []
      = Panics (Dyn BusinessLogicError ''user_validation'') [''Inner catch'']
   \<and> Catch (Concrete ValidationError) (Some \<lparr>err = Dyn ValidationError ''name'', handled = False\<rparr>)
        (say_and_throw ''Inner catch'' (Dyn BusinessLogicError ''user_validation'')) []
      = \<lparr>block = Some \<lparr>err = Dyn ValidationError ''name'', handled = False\<rparr>,
         calls = [Handler (Dyn ValidationError ''name'')],
         ending = Panics (Dyn BusinessLogicError ''user_validation'') [''Inner catch'']\<rparr>
   \<and> CatchWithReturn (Concrete ValidationError)
        (Some \<lparr>err = Dyn ValidationError ''name'', handled = False\<rparr>)
        (refuse ''Inner catch'' (Dyn BusinessLogicError ''user_validation'')) []
      = \<lparr>block = Some \<lparr>err = Dyn ValidationError ''name'', handled = False\<rparr>,
         calls = [Handler (Dyn ValidationError ''name'')],
         ending = Panics (Dyn BusinessLogicError ''user_validation'') [''Inner catch'']\<rparr>
   \<and> CatchAny (Some \<lparr>err = Dyn ValidationError ''name'', handled = False\<rparr>)
        (say_and_throw ''Inner catch'' (Dyn BusinessLogicError ''user_validation'')) []
      = \<lparr>block = Some \<lparr>err = Dyn ValidationError ''name'', handled = False\<rparr>,
         calls = [Handler (Dyn ValidationError ''name'')],
         ending = Panics (Dyn BusinessLogicError ''user_validation'') [''Inner catch'']\<rparr>"
  using handler_panic_propagates [of "\<lparr>err = Dyn ValidationError ''name'', handled = False\<rparr>"
      "Concrete ValidationError"
      "say_and_throw ''Inner catch'' (Dyn BusinessLogicError ''user_validation'')" "[]"
      "Dyn BusinessLogicError ''user_validation''" "[''Inner catch'']"
      "refuse ''Inner catch'' (Dyn BusinessLogicError ''user_validation'')"]
  by (simp add: example_defs)

section \<open>The invariant of the block\<close>

text \<open>
  C8. The block that \<^verbatim>\<open>Try\<close> returns has the flag unset, and its payload is what the
  function panicked with (nil when it returned). Through every sequence of \<^verbatim>\<open>Catch\<close>,
  \<^verbatim>\<open>CatchWithReturn\<close>, \<^verbatim>\<open>CatchAny\<close> and \<^verbatim>\<open>Finally\<close> calls on it, the states of the block
  are first that state and then, from some call on, that state with the flag set: the
  payload is never modified, the flag is set at most once and never reset, and it is set
  only on a block that has a payload.
\<close>

theorem TryBlock_invariant:
  assumes "Try fn w = (tb, w1)"
  shows "handled tb = False
    \<and> err tb = (case fn w of Returns u w' \<Rightarrow> GoNil | Panics r w' \<Rightarrow> r)
    \<and> (\<exists>k \<le> length (history xs (Some tb) w1).
         history xs (Some tb) w1 =
           replicate k (Some tb)
           @ replicate (length (history xs (Some tb) w1) - k) (Some (tb\<lparr>handled := True\<rparr>))
         \<and> (k < length (history xs (Some tb) w1) \<longrightarrow> err tb \<noteq> GoNil))"
proof -
  have tb: "tb = fst (Try fn w)" using assms by simp
  have "handled tb = False" unfolding tb by (rule Try_handled)
  moreover have "err tb = (case fn w of Returns u w' \<Rightarrow> GoNil | Panics r w' \<Rightarrow> r)"
    unfolding tb by (rule Try_err)
  moreover have "\<exists>k \<le> length (history xs (Some tb) w1).
         history xs (Some tb) w1 =
           replicate k (Some tb)
           @ replicate (length (history xs (Some tb) w1) - k) (Some (tb\<lparr>handled := True\<rparr>))
         \<and> (k < length (history xs (Some tb) w1) \<longrightarrow> err tb \<noteq> GoNil)"
    using history_shape [of xs tb w1] by blast
  ultimately show ?thesis by blast
qed

text \<open>
  The theorem at a string payload and the sequence \<^verbatim>\<open>Catch[int]\<close>, \<^verbatim>\<open>Catch[string]\<close>,
  \<^verbatim>\<open>CatchAny\<close>, \<^verbatim>\<open>Finally\<close>: the second call sets the flag.
\<close>

theorem TryBlock_invariant_witness:
  "Try (Throw (Dyn go_string ''test error'')) ([] :: string list)
     = (\<lparr>err = Dyn go_string ''test error'', handled = False\<rparr>, [])
   \<and> history [OpCatch (Concrete go_int) (say ''int handler''),
               OpCatch (Concrete go_string) (say ''string handler''),
               OpCatchAny (say ''any handler''), OpFinally cleanup_plain]
        (Some \<lparr>err = Dyn go_string ''test error'', handled = False\<rparr>) []
     = [Some \<lparr>err = Dyn go_string ''test error'', handled = False\<rparr>,
        Some \<lparr>err = Dyn go_string ''test error'', handled = True\<rparr>,
        Some \<lparr>err = Dyn go_string ''test error'', handled = True\<rparr>,
        Some \<lparr>err = Dyn go_string ''test error'', handled = True\<rparr>]
   \<and> (\<exists>k \<le> 4.
        history [OpCatch (Concrete go_int) (say ''int handler''),
                 OpCatch (Concrete go_string) (say ''string handler''),
                 OpCatchAny (say ''any handler''), OpFinally cleanup_plain]
          (Some \<lparr>err = Dyn go_string ''test error'', handled = False\<rparr>) []
        = replicate k (Some \<lparr>err = Dyn go_string ''test error'', handled = False\<rparr>)
          @ replicate (4 - k) (Some \<lparr>err = Dyn go_string ''test error'', handled = True\<rparr>))"
proof -
  let ?tb = "\<lparr>err = Dyn go_string ''test error'', handled = False\<rparr>"
  let ?xs = "[OpCatch (Concrete go_int) (say ''int handler''),
              OpCatch (Concrete go_string) (say ''string handler''),
              OpCatchAny (say ''any handler''), OpFinally cleanup_plain]"
  have t: "Try (Throw (Dyn go_string ''test error'')) ([] :: string list) = (?tb, [])"
    by (simp add: Try_def Throw_def)
  have h: "history ?xs (Some ?tb) [] =
             [Some ?tb, Some (?tb\<lparr>handled := True\<rparr>), Some (?tb\<lparr>handled := True\<rparr>),
              Some (?tb\<lparr>handled := True\<rparr>)]"
    by (simp add: Catch_def CatchAny_def Finally_def example_defs)
  then have l: "length (history ?xs (Some ?tb) []) = 4" by simp
  from TryBlock_invariant [OF t, of ?xs] t h show ?thesis
    unfolding l by simp
qed

end
